theory Spec2Isabelle
  imports Main "HOL-Library.Sublist"
    "HOL-Library.Char_ord" "HOL-Library.List_Lexorder"
begin

section \<open>Chem-Det-Scraper: the enrichment pipeline\<close>

text \<open>
  A shallow embedding of \<^verbatim>\<open>Chem-Det-Scraper.py\<close>. Python strings are modelled as
  \<^typ>\<open>string\<close>, read as sequences of code points below 256; Python integers as
  \<^typ>\<open>int\<close>. An exception is a value of \<open>exn\<close> on the left of a sum. The network, the
  order in which the thread pool completes its work, the two files and the input table
  are parameters of the model.
\<close>

subsection \<open>Exceptions\<close>

datatype exn =
    ValueError
  | IndexError
  | ZeroDivisionError
  | RequestException
  | JSONDecodeError
  | PubChemStatus int

subsection \<open>The retry decorator\<close>

text \<open>
  \<^verbatim>\<open>retry(max_attempts, delay, backoff)(func)\<close>. The wrapped operation has effects, so it
  is a function of the number of calls made before: \<open>func k\<close> is the outcome of call
  number \<open>k\<close> (counted from 0), \<open>Inl e\<close> when it raises. Each failure adds one to
  \<open>attempts\<close>, so the next call is call number \<open>attempts\<close>. The result carries the
  list of the delays slept, in order. \<^verbatim>\<open>time.sleep\<close> raises \<^verbatim>\<open>ValueError\<close> on a negative
  argument; that happens inside the handler and leaves the wrapper.
\<close>

function wrapper ::
  "int \<Rightarrow> int \<Rightarrow> (nat \<Rightarrow> exn + 'a) \<Rightarrow> nat \<Rightarrow> int \<Rightarrow> int list \<Rightarrow> (exn + 'a option) \<times> int list"
where
  "wrapper max_attempts backoff func attempts current_delay slept =
     (if int attempts < max_attempts then
        (case func attempts of
           Inr v \<Rightarrow> (Inr (Some v), slept)
         | Inl e \<Rightarrow>
             (if current_delay < 0 then (Inl ValueError, slept)
              else wrapper max_attempts backoff func (attempts + 1)
                     (current_delay * backoff) (slept @ [current_delay])))
      else (Inr None, slept))"
  by pat_completeness auto
termination
  by (relation "measure (\<lambda>(max_attempts, backoff, func, attempts, current_delay, slept).
        nat (max_attempts - int attempts))") auto

declare wrapper.simps [simp del]

definition retry ::
  "int \<Rightarrow> int \<Rightarrow> int \<Rightarrow> (nat \<Rightarrow> exn + 'a) \<Rightarrow> (exn + 'a option) \<times> int list"
where
  "retry max_attempts delay backoff func = wrapper max_attempts backoff func 0 delay []"


subsection \<open>Strings\<close>

definition lower_char :: "char \<Rightarrow> char" where
  "lower_char c =
     (let n = (of_char c :: nat)
      in if (65 \<le> n \<and> n \<le> 90) \<or> (192 \<le> n \<and> n \<le> 222 \<and> n \<noteq> 215)
         then char_of (n + 32) else c)"

definition lower :: "string \<Rightarrow> string" where
  "lower s = map lower_char s"

definition isspace :: "char \<Rightarrow> bool" where
  "isspace c =
     (let n = (of_char c :: nat)
      in (9 \<le> n \<and> n \<le> 13) \<or> (28 \<le> n \<and> n \<le> 32) \<or> n = 133 \<or> n = 160)"

definition strip :: "string \<Rightarrow> string" where
  "strip s = rev (dropWhile isspace (rev (dropWhile isspace s)))"

subsection \<open>Table cells\<close>

text \<open>A cell of a pandas column read from the spreadsheet: missing (NaN) or text.\<close>

datatype cell = NaN | Str string

fun astype_str :: "cell \<Rightarrow> string" where
  "astype_str NaN = ''nan''"
| "astype_str (Str s) = s"

subsection \<open>The classifier\<close>

definition category_map :: "(string \<times> string list) list" where
  "category_map =
    [(''Heterocyclic'', [''triazole'', ''pyrazole'', ''imidazole'', ''thiazole'', ''oxazole'',
        ''pyridine'', ''quinoline'', ''isoquinoline'', ''indole'', ''pyrimidine'',
        ''piperidine'', ''piperazine'', ''morpholine'', ''azetidine'']),
     (''Aromatic'', [''benzene'', ''phenyl'', ''toluene'', ''naphthalene'', ''aromatic'', ''indole'']),
     (''Aliphatic'', [''methyl'', ''ethyl'', ''propyl'', ''butyl'', ''pentyl'', ''hexyl'', ''cycloalkyl'']),
     (''Halogenated'', [''chloro'', ''fluoro'', ''bromo'', ''iodo'', ''halide'']),
     (''Nitrogen-Containing'', [''amine'', ''amino'', ''urea'', ''azide'', ''azo'', ''nitrile'', ''hydrazine'']),
     (''Oxygen-Containing'', [''alcohol'', ''ether'', ''aldehyde'', ''ketone'', ''acid'', ''ester'', ''anhydride'']),
     (''Sulfur-Containing'', [''thiol'', ''thio'', ''sulfonamide'', ''thiazole'', ''sulfide'']),
     (''Phosphorus-Containing'', [''phosphate'', ''phosphonate'', ''phosphine'']),
     (''Steroidal'', [''steroid'', ''estradiol'', ''testosterone'', ''corticosteroid''])]"

text \<open>The inner loop \<^verbatim>\<open>for kw in keywords: if kw in name: return category\<close>: does it return?\<close>

fun scan_keywords :: "string list \<Rightarrow> string \<Rightarrow> bool" where
  "scan_keywords [] name = False"
| "scan_keywords (kw # keywords) name =
     (if sublist kw name then True else scan_keywords keywords name)"

text \<open>The outer loop over \<^verbatim>\<open>category_map.items()\<close>, in insertion order.\<close>

fun scan_categories :: "(string \<times> string list) list \<Rightarrow> string \<Rightarrow> string" where
  "scan_categories [] name = ''Impurity''"
| "scan_categories ((category, keywords) # rest) name =
     (if scan_keywords keywords name then category else scan_categories rest name)"

fun guess_general_category :: "cell \<Rightarrow> string" where
  "guess_general_category NaN = ''Impurity''"
| "guess_general_category (Str chemical_name) =
     (if chemical_name = [] then ''Impurity''
      else scan_categories category_map (lower chemical_name))"

text \<open>
  The classifier as the specification words it: the first category, in the order of the
  mapping, one of whose keywords is a substring of the lowercased name.
\<close>

definition has_keyword :: "string \<Rightarrow> string \<times> string list \<Rightarrow> bool" where
  "has_keyword name entry = list_ex (\<lambda>kw. sublist kw name) (snd entry)"

definition first_matching_category :: "cell \<Rightarrow> string" where
  "first_matching_category c =
     (case c of
        NaN \<Rightarrow> ''Impurity''
      | Str s \<Rightarrow>
          (case find (has_keyword (lower s)) category_map of
             Some entry \<Rightarrow> fst entry
           | None \<Rightarrow> ''Impurity''))"

definition categories :: "string list" where
  "categories = map fst category_map @ [''Impurity'']"


subsection \<open>The primary lookup\<close>

text \<open>
  One entry of \<^verbatim>\<open>compound["props"]\<close>: \<open>urn_label\<close> is \<^verbatim>\<open>prop["urn"]["label"]\<close>, \<open>sval\<close> and
  \<open>fval\<close> are the two fields read from \<^verbatim>\<open>prop["value"]\<close>; each is \<open>None\<close> when the key is
  absent. A numeric \<open>fval\<close> is carried as the text \<^verbatim>\<open>str(fval)\<close> prints for it.
\<close>

record prop_entry =
  urn_label :: "string option"
  sval :: "string option"
  fval :: "string option"

record compound =
  id_name :: "string option"
  props :: "prop_entry list"

text \<open>
  What \<^verbatim>\<open>requests.get\<close> gives for one request: it raises (\<open>NoResponse\<close>), or it returns a
  status code and a body. The body is \<open>None\<close> when \<^verbatim>\<open>res.json()\<close> raises, and otherwise
  the list under \<^verbatim>\<open>"PC_Compounds"\<close> (empty when the key is absent).
\<close>

datatype response = NoResponse | Response int "compound list option"

record SourceRecord =
  sr_Chemical_Name :: string
  sr_Molecular_Formula :: string
  sr_Molecular_Weight :: string
  sr_Appearance :: string

fun truthy :: "string option \<Rightarrow> bool" where
  "truthy None = False"
| "truthy (Some s) = (s \<noteq> [])"

fun text_of :: "string option \<Rightarrow> string" where
  "text_of None = []"
| "text_of (Some s) = s"

fun py_str :: "string option \<Rightarrow> string" where
  "py_str None = ''None''"
| "py_str (Some t) = t"

definition label_of :: "prop_entry \<Rightarrow> string" where
  "label_of p = (case urn_label p of Some l \<Rightarrow> l | None \<Rightarrow> [])"

text \<open>The loop over the properties; the triple is \<open>(formula, weight, appearance)\<close>.\<close>

fun scan_props :: "prop_entry list \<Rightarrow> string \<times> string \<times> string \<Rightarrow> string \<times> string \<times> string" where
  "scan_props [] acc = acc"
| "scan_props (p # rest) (formula, weight, appearance) =
     (if label_of p = ''Molecular Formula'' \<and> truthy (sval p) then
        scan_props rest (text_of (sval p), weight, appearance)
      else if label_of p = ''Molecular Weight'' then
        scan_props rest
          (formula, (if truthy (sval p) then text_of (sval p) else py_str (fval p)), appearance)
      else if label_of p = ''Appearance'' \<and> truthy (sval p) then
        scan_props rest (formula, weight, text_of (sval p))
      else scan_props rest (formula, weight, appearance))"

text \<open>The body of \<^verbatim>\<open>fetch_pubchem\<close>, given the response to its request.\<close>

definition fetch_pubchem_body :: "string \<Rightarrow> response \<Rightarrow> exn + SourceRecord" where
  "fetch_pubchem_body cas res =
     (case res of
        NoResponse \<Rightarrow> Inl RequestException
      | Response status_code body \<Rightarrow>
          if status_code \<noteq> 200 then Inl (PubChemStatus status_code)
          else (case body of
                  None \<Rightarrow> Inl JSONDecodeError
                | Some [] \<Rightarrow> Inl IndexError
                | Some (compound # _) \<Rightarrow>
                    (let name = (case id_name compound of Some n \<Rightarrow> n | None \<Rightarrow> cas);
                         (formula, weight, appearance) = scan_props (props compound) ([], [], [])
                     in Inr \<lparr>sr_Chemical_Name = name, sr_Molecular_Formula = formula,
                             sr_Molecular_Weight = weight, sr_Appearance = appearance\<rparr>)))"

text \<open>
  \<^verbatim>\<open>@retry(max_attempts=3)\<close> around it; \<open>net k\<close> is the response to request number \<open>k\<close>.
\<close>

definition fetch_pubchem :: "(nat \<Rightarrow> response) \<Rightarrow> string \<Rightarrow> (exn + SourceRecord option) \<times> int list" where
  "fetch_pubchem net cas = retry 3 2 2 (\<lambda>k. fetch_pubchem_body cas (net k))"

text \<open>
  Property extraction as the specification words it: the first entry with the label
  decides.
\<close>

definition first_formula :: "prop_entry list \<Rightarrow> string" where
  "first_formula ps =
     (case find (\<lambda>p. label_of p = ''Molecular Formula'' \<and> truthy (sval p)) ps of
        Some p \<Rightarrow> text_of (sval p) | None \<Rightarrow> [])"

text \<open>What the loop computes: the last entry with the label decides.\<close>

definition last_formula :: "prop_entry list \<Rightarrow> string \<Rightarrow> string" where
  "last_formula ps d =
     (case find (\<lambda>p. label_of p = ''Molecular Formula'' \<and> truthy (sval p)) (rev ps) of
        Some p \<Rightarrow> text_of (sval p) | None \<Rightarrow> d)"

definition last_weight :: "prop_entry list \<Rightarrow> string \<Rightarrow> string" where
  "last_weight ps d =
     (case find (\<lambda>p. label_of p = ''Molecular Weight'') (rev ps) of
        Some p \<Rightarrow> (if truthy (sval p) then text_of (sval p) else py_str (fval p))
      | None \<Rightarrow> d)"

definition last_appearance :: "prop_entry list \<Rightarrow> string \<Rightarrow> string" where
  "last_appearance ps d =
     (case find (\<lambda>p. label_of p = ''Appearance'' \<and> truthy (sval p)) (rev ps) of
        Some p \<Rightarrow> text_of (sval p) | None \<Rightarrow> d)"

definition formula_prop :: "string \<Rightarrow> prop_entry" where
  "formula_prop s = \<lparr>urn_label = Some ''Molecular Formula'', sval = Some s, fval = None\<rparr>"

definition two_formulas :: "prop_entry list" where
  "two_formulas = [formula_prop ''C2H6O'', formula_prop ''CH4'']"

subsection \<open>The record assembler\<close>

definition digit_char :: "nat \<Rightarrow> char" where
  "digit_char d = char_of (48 + d)"

fun str_nat :: "nat \<Rightarrow> string" where
  "str_nat n = (if n < 10 then [digit_char n] else str_nat (n div 10) @ [digit_char (n mod 10)])"

declare str_nat.simps [simp del]

definition str_int :: "int \<Rightarrow> string" where
  "str_int i = (if i < 0 then CHR ''-'' # str_nat (nat (- i)) else str_nat (nat i))"

text \<open>\<^verbatim>\<open>str.zfill\<close>: zeros go after a leading sign.\<close>

definition zfill :: "nat \<Rightarrow> string \<Rightarrow> string" where
  "zfill width s =
     (if width \<le> length s then s
      else (case s of
              [] \<Rightarrow> replicate width CHR ''0''
            | c # cs \<Rightarrow>
                if c = CHR ''+'' \<or> c = CHR ''-''
                then c # replicate (width - length s) CHR ''0'' @ cs
                else replicate (width - length s) CHR ''0'' @ s))"

record OutputRecord =
  Product_Code :: string
  Chemical_Name :: cell
  CAS_No :: string
  Synonyms :: cell
  Molecular_Formula :: string
  Molecular_Weight :: string
  Appearance :: string
  Storage :: string
  Shipping_Conditions :: string
  Applications :: string
  Category :: string

definition generate_applications :: "cell \<Rightarrow> string" where
  "generate_applications name =
     ''Used in chemical synthesis, pharmaceutical or industrial research.''"

definition no_data :: "string \<Rightarrow> SourceRecord" where
  "no_data cas = \<lparr>sr_Chemical_Name = cas, sr_Molecular_Formula = [],
                  sr_Molecular_Weight = [], sr_Appearance = []\<rparr>"

definition process_row :: "(nat \<Rightarrow> response) \<Rightarrow> int \<Rightarrow> string \<Rightarrow> cell \<Rightarrow> exn + OutputRecord" where
  "process_row net index cas chemical_name =
     (case fst (fetch_pubchem net cas) of
        Inl e \<Rightarrow> Inl e
      | Inr fetched \<Rightarrow>
          (let pubchem_data = (case fetched of Some d \<Rightarrow> d | None \<Rightarrow> no_data cas);
               category = guess_general_category chemical_name
           in Inr \<lparr>Product_Code = ''S1-'' @ zfill 4 (str_int (index + 1)),
                   Chemical_Name = chemical_name,
                   CAS_No = cas,
                   Synonyms = chemical_name,
                   Molecular_Formula = sr_Molecular_Formula pubchem_data,
                   Molecular_Weight = sr_Molecular_Weight pubchem_data,
                   Appearance = sr_Appearance pubchem_data,
                   Storage = ''2-8'' @ [char_of (176::nat)] @ ''C Refrigerator'',
                   Shipping_Conditions = ''Ambient'',
                   Applications = generate_applications chemical_name,
                   Category = category\<rparr>))"

text \<open>A network on which every request fails, and one that answers at once.\<close>

definition offline :: "nat \<Rightarrow> response" where
  "offline k = NoResponse"










subsection \<open>The orchestrator\<close>

text \<open>
  The configuration constants, the rows of the input table (its columns \<^verbatim>\<open>"CAS No"\<close> and
  \<^verbatim>\<open>"Chemical Name"\<close>), and the two files the run reads and writes: the output table
  and the progress file, a JSON object, each \<open>None\<close> while the file does not exist.
\<close>

record config =
  CUSTOM_START_INDEX :: "int option"
  SAVE_EVERY_N_ROWS :: int

record input_row =
  in_CAS_No :: cell
  in_Chemical_Name :: cell

record files =
  OUTPUT_FILE :: "OutputRecord list option"
  PROGRESS_FILE :: "(string \<times> int) list option"

definition dropna :: "cell list \<Rightarrow> cell list" where
  "dropna cs = filter (\<lambda>c. c \<noteq> NaN) cs"

definition cas_list_of :: "input_row list \<Rightarrow> string list" where
  "cas_list_of input_df = map astype_str (dropna (map in_CAS_No input_df))"

definition start_index_of :: "config \<Rightarrow> files \<Rightarrow> int" where
  "start_index_of cfg fs =
     (let start_index = (case CUSTOM_START_INDEX cfg of Some n \<Rightarrow> n | None \<Rightarrow> 0)
      in case PROGRESS_FILE fs of
           None \<Rightarrow> start_index
         | Some progress \<Rightarrow>
             (case map_of progress ''last_row'' of Some v \<Rightarrow> v | None \<Rightarrow> start_index))"

text \<open>\<^verbatim>\<open>xs[i]\<close>: a negative index counts from the end, an index out of range raises.\<close>

definition py_index :: "'a list \<Rightarrow> int \<Rightarrow> exn + 'a" where
  "py_index xs i =
     (if 0 \<le> i \<and> i < int (length xs) then Inr (xs ! nat i)
      else if - int (length xs) \<le> i \<and> i < 0 then Inr (xs ! nat (int (length xs) + i))
      else Inl IndexError)"

definition chemical_name_for :: "input_row list \<Rightarrow> string \<Rightarrow> cell" where
  "chemical_name_for input_df cas =
     (let chemical_name_row =
            map in_Chemical_Name
              (filter (\<lambda>r. strip (astype_str (in_CAS_No r)) = cas) input_df)
      in case chemical_name_row of [] \<Rightarrow> Str cas | v # _ \<Rightarrow> v)"

text \<open>The submission loop; a future is the triple of arguments given to \<^verbatim>\<open>process_row\<close>.\<close>

fun submit_all :: "input_row list \<Rightarrow> string list \<Rightarrow> int list \<Rightarrow> exn + (int \<times> string \<times> cell) list" where
  "submit_all input_df cas_list [] = Inr []"
| "submit_all input_df cas_list (i # rest) =
     (case py_index cas_list i of
        Inl e \<Rightarrow> Inl e
      | Inr raw \<Rightarrow>
          (let cas = strip raw;
               chemical_name = chemical_name_for input_df cas
           in case submit_all input_df cas_list rest of
                Inl e \<Rightarrow> Inl e
              | Inr futures \<Rightarrow> Inr ((i, cas, chemical_name) # futures)))"

definition dispatch :: "config \<Rightarrow> input_row list \<Rightarrow> files \<Rightarrow> exn + (int \<times> string \<times> cell) list" where
  "dispatch cfg input_df fs =
     (let cas_list = cas_list_of input_df
      in submit_all input_df cas_list [start_index_of cfg fs..int (length cas_list) - 1])"

text \<open>
  The work of one future; \<open>net i\<close> gives the responses to the requests made for
  position \<open>i\<close>.
\<close>

fun run_future :: "(int \<Rightarrow> nat \<Rightarrow> response) \<Rightarrow> int \<times> string \<times> cell \<Rightarrow> exn + OutputRecord" where
  "run_future net (i, cas, chemical_name) = process_row (net i) i cas chemical_name"

text \<open>
  The state of the draining loop: the accumulator, the mid-run flushes made so far (the
  checkpoint saved and the rows written, one entry per \<^verbatim>\<open>Auto-saved\<close> log line), and
  the files as they are now.
\<close>

record state =
  output_data :: "OutputRecord list"
  autosaves :: "(int \<times> OutputRecord list) list"
  disk :: files

definition files_after :: "int \<times> OutputRecord list \<Rightarrow> files" where
  "files_after w = \<lparr>OUTPUT_FILE = Some (snd w), PROGRESS_FILE = Some [(''last_row'', fst w)]\<rparr>"

definition autosave :: "int \<Rightarrow> state \<Rightarrow> state" where
  "autosave count st =
     st\<lparr>autosaves := autosaves st @ [(count, output_data st)],
        disk := files_after (count, output_data st)\<rparr>"

text \<open>
  \<^verbatim>\<open>for count, future in enumerate(as_completed(futures), start=start_index + 1)\<close>, over
  the outcomes of the futures in completion order.
\<close>

fun drain :: "int \<Rightarrow> int \<Rightarrow> (exn + OutputRecord) list \<Rightarrow> state \<Rightarrow> exn + state" where
  "drain K count [] st = Inr st"
| "drain K count (future # rest) st =
     (case future of
        Inl e \<Rightarrow> Inl e
      | Inr result \<Rightarrow>
          (let st' = st\<lparr>output_data := output_data st @ [result]\<rparr>
           in if K = 0 then Inl ZeroDivisionError
              else if count mod K = 0 then drain K (count + 1) rest (autosave count st')
              else drain K (count + 1) rest st'))"

text \<open>
  \<open>order\<close> is the order of completion: the indices of the submitted futures, each once.
\<close>

definition main ::
  "config \<Rightarrow> (int \<Rightarrow> nat \<Rightarrow> response) \<Rightarrow> nat list \<Rightarrow> input_row list \<Rightarrow> files \<Rightarrow> exn + state"
where
  "main cfg net order input_df fs =
     (let cas_list = cas_list_of input_df;
          start_index = start_index_of cfg fs;
          seed = (case OUTPUT_FILE fs of Some rows \<Rightarrow> rows | None \<Rightarrow> [])
      in case dispatch cfg input_df fs of
           Inl e \<Rightarrow> Inl e
         | Inr futures \<Rightarrow>
             (case drain (SAVE_EVERY_N_ROWS cfg) (start_index + 1)
                     (map (\<lambda>k. run_future net (futures ! k)) order)
                     \<lparr>output_data = seed, autosaves = [], disk = fs\<rparr> of
                Inl e \<Rightarrow> Inl e
              | Inr st \<Rightarrow>
                  Inr (st\<lparr>disk := files_after (int (length cas_list), output_data st)\<rparr>)))"

text \<open>The records of the futures in completion order.\<close>

definition completed ::
  "(int \<Rightarrow> nat \<Rightarrow> response) \<Rightarrow> (int \<times> string \<times> cell) list \<Rightarrow> nat list \<Rightarrow> OutputRecord list"
where
  "completed net futures order = map (\<lambda>k. projr (run_future net (futures ! k))) order"

text \<open>Concrete inputs used below.\<close>

definition all_offline :: "int \<Rightarrow> nat \<Rightarrow> response" where
  "all_offline i = offline"

definition no_files :: files where
  "no_files = \<lparr>OUTPUT_FILE = None, PROGRESS_FILE = None\<rparr>"

definition abc_table :: "input_row list" where
  "abc_table =
     [\<lparr>in_CAS_No = Str ''A'', in_Chemical_Name = Str ''a''\<rparr>,
      \<lparr>in_CAS_No = Str ''B'', in_Chemical_Name = Str ''b''\<rparr>,
      \<lparr>in_CAS_No = Str ''C'', in_Chemical_Name = Str ''c''\<rparr>]"


text \<open>
  The numbers of completions since the resume point after which the loop flushes, for
  interval \<open>K\<close>, resume point \<open>r\<close> and \<open>n\<close> completions: those at which the running
  count \<open>r + j\<close> is a multiple of \<open>K\<close>.
\<close>

definition flush_points :: "int \<Rightarrow> int \<Rightarrow> nat \<Rightarrow> nat list" where
  "flush_points K r n = filter (\<lambda>j. K dvd (r + int j)) [1..<Suc n]"

text \<open>
  The same as the specification words it: after every \<open>K\<close>th completion counted from
  the resume point.
\<close>

definition claimed_flush_points :: "int \<Rightarrow> nat \<Rightarrow> nat list" where
  "claimed_flush_points K n = filter (\<lambda>j. K dvd int j) [1..<Suc n]"

text \<open>
  Views of the mid-run flushes of a run: the checkpoint saved with the number of rows
  written, and the checkpoint saved with the identifiers of the rows written.
\<close>

definition flush_log :: "state \<Rightarrow> (int \<times> nat) list" where
  "flush_log st = map (map_prod id length) (autosaves st)"

definition flush_trace :: "state \<Rightarrow> (int \<times> string list) list" where
  "flush_trace st = map (map_prod id (map CAS_No)) (autosaves st)"

text \<open>
  The files a run leaves behind when the process is killed right after its mid-run flush
  number \<open>k\<close> (counted from 0): what that flush wrote.
\<close>

definition crash_disk :: "exn + state \<Rightarrow> nat \<Rightarrow> files" where
  "crash_disk run k = (case run of Inl e \<Rightarrow> no_files | Inr st \<Rightarrow> files_after (autosaves st ! k))"

definition seed_of :: "files \<Rightarrow> OutputRecord list" where
  "seed_of fs = (case OUTPUT_FILE fs of Some rows \<Rightarrow> rows | None \<Rightarrow> [])"

definition interval :: "int \<Rightarrow> config" where
  "interval K = \<lparr>CUSTOM_START_INDEX = None, SAVE_EVERY_N_ROWS = K\<rparr>"

definition shipped_config :: config where
  "shipped_config = \<lparr>CUSTOM_START_INDEX = Some 2800, SAVE_EVERY_N_ROWS = 5\<rparr>"

definition checkpoint_at :: "int \<Rightarrow> files" where
  "checkpoint_at n = \<lparr>OUTPUT_FILE = None, PROGRESS_FILE = Some [(''last_row'', n)]\<rparr>"

section \<open>Properties\<close>

subsection \<open>Retry\<close>

lemma wrapper_exhausted:
  assumes "\<forall>k. a \<le> k \<and> int k < N \<longrightarrow> isl (func k)" "0 \<le> d" "0 \<le> B"
  shows "wrapper N B func a d slept =
           (Inr None, slept @ map (\<lambda>k. d * B ^ k) [0..<nat (N - int a)])"
  using assms
proof (induction "nat (N - int a)" arbitrary: a d slept)
  case 0
  then show ?case by (simp add: wrapper.simps)
next
  case (Suc n)
  from Suc.hyps(2) have lt: "int a < N" by linarith
  with Suc.prems(1) have "isl (func a)" by simp
  then obtain e where e: "func a = Inl e" by (cases "func a") auto
  have n: "n = nat (N - int (a + 1))" using Suc.hyps(2) by linarith
  have step: "wrapper N B func (a + 1) (d * B) (slept @ [d]) =
        (Inr None, (slept @ [d]) @ map (\<lambda>k. (d * B) * B ^ k) [0..<nat (N - int (a + 1))])"
    using Suc.prems by (intro Suc.hyps(1)[OF n]) auto
  have idx: "[0..<nat (N - int a)] = 0 # map Suc [0..<n]"
    using Suc.hyps(2) by (metis map_Suc_upt upt_conv_Cons zero_less_Suc)
  show ?case
    using lt e Suc.prems(2) step
    by (subst wrapper.simps) (simp add: idx n comp_def mult.assoc)
qed




subsection \<open>Classifier\<close>

lemma scan_keywords_ex: "scan_keywords kws name = list_ex (\<lambda>kw. sublist kw name) kws"
  by (induction kws) auto

lemma scan_categories_find:
  "scan_categories m name =
     (case find (has_keyword name) m of Some entry \<Rightarrow> fst entry | None \<Rightarrow> ''Impurity'')"
  by (induction m name rule: scan_categories.induct)
     (simp_all add: has_keyword_def scan_keywords_ex)

lemma scan_categories_range:
  "scan_categories m name \<in> set (map fst m @ [''Impurity''])"
  by (induction m name rule: scan_categories.induct) auto

lemma no_keyword_in_empty: "find (has_keyword []) category_map = None"
  by (simp add: category_map_def has_keyword_def)

text \<open>
  C6. For every name, missing and empty included, the classifier returns one category of
  the fixed set: the first category of the mapping, in its order, one of whose keywords
  is a substring of the lowercased name, and \<open>Impurity\<close> when the name is missing or empty
  or no keyword occurs in it.
\<close>

theorem classifier_first_match:
  "guess_general_category c = first_matching_category c
   \<and> guess_general_category c \<in> set categories"
proof (cases c)
  case NaN
  then show ?thesis by (simp add: first_matching_category_def categories_def)
next
  case (Str s)
  show ?thesis
  proof (cases "s = []")
    case True
    with Str show ?thesis
      by (simp add: first_matching_category_def categories_def lower_def no_keyword_in_empty)
  next
    case False
    with Str show ?thesis
      using scan_categories_range[of category_map "lower s"]
      by (simp add: first_matching_category_def categories_def scan_categories_find)
  qed
qed

text \<open>\<open>2-Chloropyridine\<close> has \<open>pyridine\<close> (Heterocyclic) and \<open>chloro\<close> (Halogenated): the earlier category wins.\<close>

theorem classifier_first_match_witness:
  "guess_general_category (Str ''2-Chloropyridine'') = ''Heterocyclic''
   \<and> first_matching_category (Str ''2-Chloropyridine'') = ''Heterocyclic''
   \<and> ''Heterocyclic'' \<in> set categories"
proof -
  have "first_matching_category (Str ''2-Chloropyridine'') = ''Heterocyclic''"
    by code_simp
  with classifier_first_match[of "Str ''2-Chloropyridine''"] show ?thesis
    by (auto simp del: guess_general_category.simps)
qed

subsection \<open>Property extraction\<close>

lemma find_snoc:
  "find P (xs @ [y]) = (case find P xs of Some x \<Rightarrow> Some x | None \<Rightarrow> if P y then Some y else None)"
  by (induction xs) auto

lemma last_formula_Cons:
  "last_formula (p # ps) d =
     last_formula ps (if label_of p = ''Molecular Formula'' \<and> truthy (sval p)
                      then text_of (sval p) else d)"
  by (auto simp add: last_formula_def find_snoc split: option.splits)

lemma last_weight_Cons:
  "last_weight (p # ps) d =
     last_weight ps (if label_of p = ''Molecular Weight''
                     then (if truthy (sval p) then text_of (sval p) else py_str (fval p))
                     else d)"
  by (auto simp add: last_weight_def find_snoc split: option.splits)

lemma last_appearance_Cons:
  "last_appearance (p # ps) d =
     last_appearance ps (if label_of p = ''Appearance'' \<and> truthy (sval p)
                         then text_of (sval p) else d)"
  by (auto simp add: last_appearance_def find_snoc split: option.splits)

lemma scan_props_last:
  "scan_props ps (f, w, a) = (last_formula ps f, last_weight ps w, last_appearance ps a)"
proof (induction ps arbitrary: f w a)
  case Nil
  show ?case by (simp add: last_formula_def last_weight_def last_appearance_def)
next
  case (Cons p ps)
  show ?case
    by (simp add: Cons.IH last_formula_Cons last_weight_Cons last_appearance_Cons)
qed

text \<open>
  C2, amended. When several entries of the property list carry the same label, the value
  extracted for that label is the one of the last such entry in list order (among the
  entries with a non-empty string value, for the formula and the appearance; among all
  entries with the label, for the weight): each matching entry replaces the value found
  before.
\<close>

theorem props_last_match_wins:
  "scan_props ps ([], [], []) = (last_formula ps [], last_weight ps [], last_appearance ps [])"
  by (rule scan_props_last)

text \<open>
  C2 as stated fails: of two entries labelled \<open>Molecular Formula\<close>, the second one is
  extracted, not the first.
\<close>

theorem props_first_match_counterexample:
  "fst (scan_props two_formulas ([], [], [])) = ''CH4''
   \<and> first_formula two_formulas = ''C2H6O''
   \<and> fst (scan_props two_formulas ([], [], [])) \<noteq> first_formula two_formulas"
  by (simp add: two_formulas_def formula_prop_def first_formula_def label_of_def)

text \<open>The amended statement at the same list.\<close>

theorem props_last_match_wins_witness:
  "scan_props two_formulas ([], [], []) = (''CH4'', [], [])
   \<and> last_formula two_formulas [] = ''CH4''"
  using props_last_match_wins[of two_formulas]
  by (simp add: two_formulas_def formula_prop_def last_formula_def label_of_def)


subsection \<open>The record assembler\<close>

lemma wrapper_never_raises:
  "0 \<le> d \<Longrightarrow> 0 \<le> B \<Longrightarrow> \<exists>r. fst (wrapper N B func a d slept) = Inr r"
proof (induction N B func a d slept rule: wrapper.induct)
  case (1 N B func a d slept)
  show ?case
  proof (cases "int a < N")
    case False
    then show ?thesis by (subst wrapper.simps) simp
  next
    case True
    show ?thesis
    proof (cases "func a")
      case (Inr v)
      with True show ?thesis by (subst wrapper.simps) simp
    next
      case (Inl e)
      have "\<exists>r. fst (wrapper N B func (a + 1) (d * B) (slept @ [d])) = Inr r"
        using "1.IH"[OF True Inl] "1.prems" by simp
      with True Inl "1.prems" show ?thesis by (subst wrapper.simps) simp
    qed
  qed
qed

lemma fetch_pubchem_never_raises: "\<exists>r. fst (fetch_pubchem net cas) = Inr r"
  unfolding fetch_pubchem_def retry_def by (rule wrapper_never_raises) simp_all

lemma fetch_pubchem_exhausted:
  assumes "\<forall>k<3. isl (fetch_pubchem_body cas (net k))"
  shows "fetch_pubchem net cas = (Inr None, [2, 4, 8])"
proof -
  have "\<forall>k. 0 \<le> k \<and> int k < 3 \<longrightarrow> isl (fetch_pubchem_body cas (net k))"
    using assms by auto
  from wrapper_exhausted[of 0 3 "\<lambda>k. fetch_pubchem_body cas (net k)" 2 2 "[]", OF this]
  show ?thesis by (simp add: fetch_pubchem_def retry_def upt_rec)
qed

text \<open>
  C7, amended. When the primary lookup fails on all three attempts, the assembler still
  returns one record and does not raise. Its chemical name and synonyms are the declared
  name (the identifier is in the \<open>CAS No\<close> field only), its formula, weight and
  appearance are empty, and its category is the classifier's answer for the declared
  name.
\<close>

theorem soft_failure_record:
  assumes "\<forall>k<3. isl (fetch_pubchem_body cas (net k))"
  shows "process_row net index cas chemical_name =
     Inr \<lparr>Product_Code = ''S1-'' @ zfill 4 (str_int (index + 1)),
          Chemical_Name = chemical_name,
          CAS_No = cas,
          Synonyms = chemical_name,
          Molecular_Formula = [],
          Molecular_Weight = [],
          Appearance = [],
          Storage = ''2-8'' @ [char_of (176::nat)] @ ''C Refrigerator'',
          Shipping_Conditions = ''Ambient'',
          Applications = generate_applications chemical_name,
          Category = guess_general_category chemical_name\<rparr>"
  by (simp add: process_row_def fetch_pubchem_exhausted[OF assms] no_data_def)

text \<open>
  C7 as stated fails: with the lookup failing, the record of identifier \<open>50-00-0\<close>
  declared as \<open>Formaldehyde\<close> is named \<open>Formaldehyde\<close>, not \<open>50-00-0\<close>.
\<close>

theorem soft_failure_name_counterexample:
  "map_sum id Chemical_Name (process_row offline 0 ''50-00-0'' (Str ''Formaldehyde''))
     = Inr (Str ''Formaldehyde'')
   \<and> Str ''Formaldehyde'' \<noteq> Str ''50-00-0''"
proof -
  have "\<forall>k<3. isl (fetch_pubchem_body ''50-00-0'' (offline k))"
    by (simp add: fetch_pubchem_body_def offline_def)
  from fetch_pubchem_exhausted[OF this] show ?thesis
    by (simp add: process_row_def Let_def)
qed

text \<open>The amended statement at the same input.\<close>

theorem soft_failure_record_witness:
  "Chemical_Name (projr (process_row offline 0 ''50-00-0'' (Str ''Formaldehyde''))) = Str ''Formaldehyde''
   \<and> Molecular_Formula (projr (process_row offline 0 ''50-00-0'' (Str ''Formaldehyde''))) = []
   \<and> Category (projr (process_row offline 0 ''50-00-0'' (Str ''Formaldehyde''))) = ''Oxygen-Containing''"
proof -
  have h: "\<forall>k<3. isl (fetch_pubchem_body ''50-00-0'' (offline k))"
    by (simp add: fetch_pubchem_body_def offline_def)
  have c: "guess_general_category (Str ''Formaldehyde'') = ''Oxygen-Containing''"
    by code_simp
  show ?thesis
    using soft_failure_record[OF h, of 0 "Str ''Formaldehyde''"] c by simp
qed

subsection \<open>Resume point\<close>

text \<open>
  C1. The claim is that a configured override start position takes precedence over the
  persisted checkpoint. The code reads the override first and then replaces it by the
  checkpoint whenever the progress file has a \<open>last_row\<close>: with the override 2800
  of the shipped configuration and a checkpoint of 5, the run starts at 5.
\<close>

theorem override_loses_to_checkpoint:
  "start_index_of shipped_config (checkpoint_at 5) = 5"
  by (simp add: start_index_of_def shipped_config_def checkpoint_at_def)

subsection \<open>The lookup's canonical name\<close>







subsection \<open>Identifiers of the input table\<close>









subsection \<open>Product codes\<close>



















lemma process_row_total: "\<exists>r. process_row net i cas nm = Inr r"
proof -
  obtain fetched where "fst (fetch_pubchem net cas) = Inr fetched"
    using fetch_pubchem_never_raises by blast
  then show ?thesis by (simp add: process_row_def Let_def)
qed










subsection \<open>Periodic flush and checkpoint\<close>

lemma upt_1_Suc_Suc: "[Suc 0..<Suc (Suc n)] = Suc 0 # map Suc [Suc 0..<Suc n]"
  by (simp add: upt_conv_Cons map_Suc_upt del: upt_Suc)

lemma flush_points_Suc:
  "flush_points K (c - 1) (Suc n) =
     (if K dvd c then [1] else []) @ map Suc (flush_points K c n)"
proof -
  have "filter (\<lambda>j. K dvd (c - 1 + int j)) (map Suc [Suc 0..<Suc n]) =
        map Suc (filter (\<lambda>j. K dvd (c + int j)) [Suc 0..<Suc n])"
    by (simp add: filter_map comp_def)
  then show ?thesis
    unfolding flush_points_def One_nat_def upt_1_Suc_Suc by simp
qed

lemma drain_results:
  assumes "K \<noteq> 0"
  shows "\<exists>st'. drain K c (map Inr rs) st = Inr st'
           \<and> output_data st' = output_data st @ rs
           \<and> autosaves st' = autosaves st @
                map (\<lambda>j. (c - 1 + int j, output_data st @ take j rs))
                    (flush_points K (c - 1) (length rs))"
proof (induction rs arbitrary: c st)
  case Nil
  show ?case by (simp add: flush_points_def)
next
  case (Cons r rs)
  define st1 where "st1 = st\<lparr>output_data := output_data st @ [r]\<rparr>"
  define st2 where "st2 = (if c mod K = 0 then autosave c st1 else st1)"
  have step: "drain K c (map Inr (r # rs)) st = drain K (c + 1) (map Inr rs) st2"
    using assms by (simp add: st1_def st2_def Let_def)
  have od: "output_data st2 = output_data st @ [r]"
    by (simp add: st2_def st1_def autosave_def)
  have au: "autosaves st2 = autosaves st @ (if K dvd c then [(c, output_data st @ [r])] else [])"
    by (simp add: st2_def st1_def autosave_def dvd_eq_mod_eq_0)
  from Cons.IH[of "c + 1" st2] obtain st' where
    d: "drain K (c + 1) (map Inr rs) st2 = Inr st'"
    and o: "output_data st' = output_data st2 @ rs"
    and a: "autosaves st' = autosaves st2 @
              map (\<lambda>j. (c + int j, output_data st2 @ take j rs)) (flush_points K c (length rs))"
    by auto
  have fp: "flush_points K (c - 1) (length (r # rs)) =
            (if K dvd c then [1] else []) @ map Suc (flush_points K c (length rs))"
    by (simp add: flush_points_Suc)
  have "autosaves st' = autosaves st @
          map (\<lambda>j. (c - 1 + int j, output_data st @ take j (r # rs)))
              (flush_points K (c - 1) (length (r # rs)))"
    unfolding a au od fp by (simp add: comp_def)
  with step d o od show ?case by simp
qed

lemma run_future_total: "\<exists>r. run_future net fut = Inr r"
  by (cases fut) (simp add: process_row_total)

lemma completed_results:
  "map (\<lambda>k. run_future net (futures ! k)) order = map Inr (completed net futures order)"
proof -
  have "run_future net fut = Inr (projr (run_future net fut))" for fut
    using run_future_total[of net fut] by auto
  then show ?thesis by (simp add: completed_def)
qed

lemma permutation_length:
  "distinct order \<Longrightarrow> set order = {..<n} \<Longrightarrow> length order = n"
  by (metis card_lessThan distinct_card)

lemma main_run:
  assumes "SAVE_EVERY_N_ROWS cfg \<noteq> 0"
    and "dispatch cfg input_df fs = Inr futures"
    and "distinct order" and "set order = {..<length futures}"
  shows "main cfg net order input_df fs =
     Inr \<lparr>output_data = seed_of fs @ completed net futures order,
          autosaves =
            map (\<lambda>j. (start_index_of cfg fs + int j,
                       seed_of fs @ take j (completed net futures order)))
                (flush_points (SAVE_EVERY_N_ROWS cfg) (start_index_of cfg fs) (length futures)),
          disk = files_after (int (length (cas_list_of input_df)),
                              seed_of fs @ completed net futures order)\<rparr>"
proof -
  let ?st = "\<lparr>output_data = seed_of fs, autosaves = [], disk = fs\<rparr>"
  let ?rs = "completed net futures order"
  have len: "length ?rs = length futures"
    using permutation_length[OF assms(3,4)] by (simp add: completed_def)
  from drain_results[OF assms(1), of "start_index_of cfg fs + 1" ?rs ?st]
  obtain st' where d: "drain (SAVE_EVERY_N_ROWS cfg) (start_index_of cfg fs + 1) (map Inr ?rs) ?st = Inr st'"
    and o: "output_data st' = seed_of fs @ ?rs"
    and a: "autosaves st' = map (\<lambda>j. (start_index_of cfg fs + int j, seed_of fs @ take j ?rs))
                (flush_points (SAVE_EVERY_N_ROWS cfg) (start_index_of cfg fs) (length futures))"
    using len by auto
  have "st'\<lparr>disk := files_after (int (length (cas_list_of input_df)), output_data st')\<rparr> =
        \<lparr>output_data = seed_of fs @ ?rs,
         autosaves = map (\<lambda>j. (start_index_of cfg fs + int j, seed_of fs @ take j ?rs))
                (flush_points (SAVE_EVERY_N_ROWS cfg) (start_index_of cfg fs) (length futures)),
         disk = files_after (int (length (cas_list_of input_df)), seed_of fs @ ?rs)\<rparr>"
    using o a by (cases st') simp
  with d assms(2) show ?thesis
    by (simp add: main_def Let_def completed_results seed_of_def)
qed

lemma abc_dispatch:
  "dispatch (interval K) abc_table no_files =
     Inr [(0, ''A'', Str ''a''), (1, ''B'', Str ''b''), (2, ''C'', Str ''c'')]"
  by code_simp

lemma abc_dispatch_1:
  "dispatch (interval K) abc_table (checkpoint_at 1) =
     Inr [(1, ''B'', Str ''b''), (2, ''C'', Str ''c'')]"
  by code_simp


text \<open>
  C3, amended. For every run with resume point \<open>r\<close>, flush interval \<open>K \<noteq> 0\<close> and any
  completion order of the submitted work, a mid-run flush occurs exactly after those
  completions at which \<open>r\<close> plus the number of completions since resume is a multiple
  of \<open>K\<close>; it writes the full accumulator and saves as checkpoint \<open>r\<close> plus the number
  of completions so far. After all work drains, the final flush writes the accumulator
  and saves the total identifier count as checkpoint.
\<close>

theorem periodic_flush:
  assumes "SAVE_EVERY_N_ROWS cfg \<noteq> 0"
    and "dispatch cfg input_df fs = Inr futures"
    and "distinct order" and "set order = {..<length futures}"
  shows "main cfg net order input_df fs =
     Inr \<lparr>output_data = seed_of fs @ completed net futures order,
          autosaves =
            map (\<lambda>j. (start_index_of cfg fs + int j,
                       seed_of fs @ take j (completed net futures order)))
                (flush_points (SAVE_EVERY_N_ROWS cfg) (start_index_of cfg fs) (length futures)),
          disk = files_after (int (length (cas_list_of input_df)),
                              seed_of fs @ completed net futures order)\<rparr>"
  using assms by (rule main_run)

lemma set_012: "set [0, 1, 2] = {..<length [a, b, c]}" "set [1, 0, 2] = {..<length [a, b, c]}"
  by auto

lemma set_01: "set [0, 1] = {..<length [a, b]}"
  by auto

lemma flush_points_eval:
  "flush_points 2 0 (Suc (Suc (Suc 0))) = [2]" "flush_points 2 1 (Suc (Suc 0)) = [1]"
  "claimed_flush_points 2 2 = [2]"
  by (simp_all add: flush_points_def claimed_flush_points_def upt_rec)

lemma interval_K: "SAVE_EVERY_N_ROWS (interval K) = K"
  by (simp add: interval_def)

lemma resume_points:
  "start_index_of (interval K) no_files = 0"
  "start_index_of (interval K) (checkpoint_at n) = n"
  by (simp_all add: start_index_of_def interval_def no_files_def checkpoint_at_def)

lemma no_seed: "seed_of no_files = []" "seed_of (checkpoint_at n) = []"
  by (simp_all add: seed_of_def no_files_def checkpoint_at_def)

lemma abc_length: "length (cas_list_of abc_table) = 3"
  by (simp add: cas_list_of_def abc_table_def dropna_def)

text \<open>
  C3 as stated fails: resuming at 1 with interval 2 and two positions left, the only
  mid-run flush comes after one completion (checkpoint 2, one row written), where the
  claim puts it after the second completion.
\<close>

theorem flush_phase_counterexample:
  "map_sum id flush_log (main (interval 2) all_offline [0, 1] abc_table (checkpoint_at 1))
     = Inr [(2, 1)]
   \<and> claimed_flush_points 2 2 = [2]"
proof -
  have k: "SAVE_EVERY_N_ROWS (interval 2) \<noteq> 0" by (simp add: interval_K)
  from main_run[OF k abc_dispatch_1 _ set_01, of all_offline] show ?thesis
    by (simp add: flush_log_def flush_points_eval interval_K resume_points no_seed
        completed_def)
qed

text \<open>
  The scenario of the specification: three identifiers, interval 2, completion in order.
  One mid-run flush, after two completions, with checkpoint 2; the final checkpoint is 3.
\<close>

theorem periodic_flush_witness:
  "map_sum id flush_log (main (interval 2) all_offline [0, 1, 2] abc_table no_files)
     = Inr [(2, 2)]
   \<and> map_sum id (\<lambda>st. PROGRESS_FILE (disk st))
       (main (interval 2) all_offline [0, 1, 2] abc_table no_files)
     = Inr (Some [(''last_row'', 3)])"
proof -
  have k: "SAVE_EVERY_N_ROWS (interval 2) \<noteq> 0" by (simp add: interval_K)
  from periodic_flush[OF k abc_dispatch _ set_012(1), of all_offline] show ?thesis
    by (simp add: flush_log_def flush_points_eval interval_K resume_points no_seed abc_length
        completed_def files_after_def)
qed

subsection \<open>Checkpoint and accumulator under out-of-order completion\<close>

text \<open>
  C4. There is a completion order (B, A, C with interval 1) in which a flush saves a
  checkpoint beyond a submitted position whose record is not yet in the accumulator:
  the first flush saves checkpoint 1 with the row of B alone, while position 0 (A) was
  submitted. A run resumed from the files that flush left dispatches positions 1 and 2
  only, and its finished output has B, B, C: position 0 is never processed.
\<close>

theorem checkpoint_passes_unfinished_position:
  "\<exists>order. distinct order \<and> set order = {..<3}
     \<and> map_sum id (map fst) (dispatch (interval 1) abc_table no_files) = Inr [0, 1, 2]
     \<and> map_sum id flush_trace (main (interval 1) all_offline order abc_table no_files)
         = Inr [(1, [''B'']), (2, [''B'', ''A'']), (3, [''B'', ''A'', ''C''])]
     \<and> map_sum id (map fst)
         (dispatch (interval 1) abc_table
            (crash_disk (main (interval 1) all_offline order abc_table no_files) 0))
         = Inr [1, 2]
     \<and> map_sum id (\<lambda>st. map CAS_No (output_data st))
         (main (interval 1) all_offline [0, 1] abc_table
            (crash_disk (main (interval 1) all_offline order abc_table no_files) 0))
         = Inr [''B'', ''B'', ''C'']"
proof (intro exI[of _ "[1, 0, 2]"] conjI)
  show "distinct [1, 0, 2::nat]" by simp
  show "set [1, 0, 2] = {..<3::nat}" by auto
  show "map_sum id (map fst) (dispatch (interval 1) abc_table no_files) = Inr [0, 1, 2]"
    by (simp add: abc_dispatch)
  show "map_sum id flush_trace (main (interval 1) all_offline [1, 0, 2] abc_table no_files)
         = Inr [(1, [''B'']), (2, [''B'', ''A'']), (3, [''B'', ''A'', ''C''])]"
    by code_simp
  show "map_sum id (map fst)
         (dispatch (interval 1) abc_table
            (crash_disk (main (interval 1) all_offline [1, 0, 2] abc_table no_files) 0))
         = Inr [1, 2]"
    by code_simp
  show "map_sum id (\<lambda>st. map CAS_No (output_data st))
         (main (interval 1) all_offline [0, 1] abc_table
            (crash_disk (main (interval 1) all_offline [1, 0, 2] abc_table no_files) 0))
         = Inr [''B'', ''B'', ''C'']"
    by code_simp
qed

end
